theory Spec2Isabelle
  imports Complex_Main "HOL-Library.Char_ord" "HOL-Library.List_Lexorder" "HOL-Library.AList"
begin

section \<open>Strings and paths\<close>

text \<open>
  The program is \<^verbatim>\<open>main_sync_script.py\<close>. Its strings are Python \<^verbatim>\<open>str\<close> values; here a
  string is a \<^typ>\<open>char list\<close> and a character stands for a code point below 256. The
  built-ins the script calls (\<^verbatim>\<open>str.lower\<close>, \<^verbatim>\<open>str.strip\<close>, \<^verbatim>\<open>str.startswith\<close>,
  \<^verbatim>\<open>str.endswith\<close>, \<^verbatim>\<open>str.rfind\<close>) and the functions of \<^verbatim>\<open>posixpath\<close> are written out
  as Python defines them on that range. The configured paths are POSIX paths, so the
  separator is \<open>/\<close>.
\<close>

definition lower_char :: "char \<Rightarrow> char" where
  "lower_char c =
     (let n = (of_char c :: nat)
      in if (65 \<le> n \<and> n \<le> 90) \<or> (192 \<le> n \<and> n \<le> 222 \<and> n \<noteq> 215)
         then char_of (n + 32) else c)"

definition lower :: "string \<Rightarrow> string" where
  "lower s = map lower_char s"

definition isspace :: "char \<Rightarrow> bool" where
  "isspace c =
     (let n = (of_char c :: nat)
      in (9 \<le> n \<and> n \<le> 13) \<or> (28 \<le> n \<and> n \<le> 32) \<or> n = 133 \<or> n = 160)"

definition strip :: "string \<Rightarrow> string" where
  "strip s = rev (dropWhile isspace (rev (dropWhile isspace s)))"

definition startswith :: "string \<Rightarrow> string \<Rightarrow> bool" where
  "startswith s p = (take (length p) s = p)"

definition endswith :: "string \<Rightarrow> string \<Rightarrow> bool" where
  "endswith s p = (length p \<le> length s \<and> drop (length s - length p) s = p)"

text \<open>\<^verbatim>\<open>s.rfind(c)\<close>: the index of the last occurrence of \<open>c\<close>, or \<open>-1\<close>.\<close>

definition rfind :: "string \<Rightarrow> char \<Rightarrow> int" where
  "rfind s c =
     (if c \<in> set s
      then int (length s) - 1 - int (length (takeWhile (\<lambda>x. x \<noteq> c) (rev s)))
      else - 1)"

text \<open>
  \<^verbatim>\<open>os.path.splitext\<close>: the extension starts at the last dot after the last separator,
  unless only dots stand between the separator and that dot (leading dots belong to the
  name, so \<^verbatim>\<open>.bashrc\<close> has no extension).
\<close>

definition splitext :: "string \<Rightarrow> string \<times> string" where
  "splitext p =
     (let sepIndex = rfind p (CHR ''/'');
          dotIndex = rfind p (CHR ''.'')
      in if dotIndex > sepIndex \<and>
            list_ex (\<lambda>c. c \<noteq> CHR ''.'')
              (take (nat (dotIndex - (sepIndex + 1))) (drop (nat (sepIndex + 1)) p))
         then (take (nat dotIndex) p, drop (nat dotIndex) p)
         else (p, []))"

text \<open>\<^verbatim>\<open>os.path.basename\<close>, \<^verbatim>\<open>os.path.dirname\<close> and the two-argument \<^verbatim>\<open>os.path.join\<close>.\<close>

definition path_basename :: "string \<Rightarrow> string" where
  "path_basename p = drop (nat (rfind p (CHR ''/'') + 1)) p"

definition rstrip_sep :: "string \<Rightarrow> string" where
  "rstrip_sep s = rev (dropWhile (\<lambda>c. c = CHR ''/'') (rev s))"

definition path_dirname :: "string \<Rightarrow> string" where
  "path_dirname p =
     (let head = take (nat (rfind p (CHR ''/'') + 1)) p
      in if head \<noteq> [] \<and> list_ex (\<lambda>c. c \<noteq> CHR ''/'') head then rstrip_sep head else head)"

definition path_join :: "string \<Rightarrow> string \<Rightarrow> string" where
  "path_join a b =
     (if startswith b ''/'' then b
      else if a = [] \<or> endswith a ''/'' then a @ b
      else a @ ''/'' @ b)"

section \<open>Data model\<close>

text \<open>
  The value of a snapshot entry is the dictionary \<^verbatim>\<open>{'path', 'mtime', 'ext'}\<close> built at
  lines 59-63. \<^verbatim>\<open>mtime\<close> is a Python float; it is taken as a real number, so the
  difference of two modification times is the exact one.
\<close>

record file_info =
  path :: string
  mtime :: real
  ext :: string

text \<open>
  A snapshot is the dictionary \<^verbatim>\<open>files_info\<close>: an association list in insertion order,
  read with \<^const>\<open>map_of\<close> and written with \<^const>\<open>AList.update\<close>, which replaces the
  value of a key already present and appends a new key at the end, as a Python
  \<^verbatim>\<open>dict\<close> does.
\<close>

type_synonym snapshot = "(string \<times> file_info) list"

record conflict =
  basename :: string
  sd :: file_info
  local :: file_info

record differences =
  sd_only :: "file_info list"
  local_only :: "file_info list"
  conflicts :: "conflict list"

datatype py_error =
    FileNotFoundError string
  | RuntimeError string
  | OSError string
  | IOError string

text \<open>\<^verbatim>\<open>str(e)\<close> of an exception raised with one message argument.\<close>

fun str_of_error :: "py_error \<Rightarrow> string" where
  "str_of_error (FileNotFoundError m) = m"
| "str_of_error (RuntimeError m) = m"
| "str_of_error (OSError m) = m"
| "str_of_error (IOError m) = m"

text \<open>What \<^verbatim>\<open>subprocess.run(..., capture_output=True, text=True, check=False)\<close> returns.\<close>

record completed_process =
  returncode :: int
  stdout :: string
  stderr :: string

text \<open>
  The operating system as the script sees it: one oracle for each call the script
  makes. \<open>listdir\<close> and \<open>run\<close> give \<open>Inl\<close> when the call raises, \<open>getmtime\<close> gives
  \<open>None\<close> when it raises \<^verbatim>\<open>OSError\<close>, and \<open>makedirs\<close> gives the error it raises, if
  any. \<open>scripts_dir\<close> is \<^verbatim>\<open>EXTERNAL_CONVERSION_SCRIPTS_DIR\<close> (computed from
  \<^verbatim>\<open>__file__\<close>) and \<open>executable\<close> is \<^verbatim>\<open>sys.executable\<close>.
\<close>

record world =
  isdir :: "string \<Rightarrow> bool"
  listdir :: "string \<Rightarrow> py_error + string list"
  isfile :: "string \<Rightarrow> bool"
  getmtime :: "string \<Rightarrow> real option"
  path_exists :: "string \<Rightarrow> bool"
  makedirs :: "string \<Rightarrow> py_error option"
  run :: "string list \<Rightarrow> string \<Rightarrow> py_error + completed_process"
  scripts_dir :: string
  executable :: string

definition SD_CARD_BASE_PATH :: string where
  "SD_CARD_BASE_PATH = ''/run/media/deck/MINUI''"

definition SD_CARD_SAVES_PATH :: string where
  "SD_CARD_SAVES_PATH = path_join (path_join SD_CARD_BASE_PATH ''Saves'') ''GBA''"

definition LOCAL_SAVES_PATH :: string where
  "LOCAL_SAVES_PATH = ''/home/deck/Documents/emulation/Emulation/saves/retroarch/saves''"

section \<open>Directory scanner\<close>

text \<open>
  Lines 43 and 50-52: the name before the extension, with a second
  \<^verbatim>\<open>splitext\<close> when the extension is \<^verbatim>\<open>.sav\<close> and that name ends in \<^verbatim>\<open>.gba\<close>.
\<close>

definition true_basename :: "string \<Rightarrow> string" where
  "true_basename filename =
     (let (name_part_before_ext, actual_ext) = splitext filename
      in if lower actual_ext = ''.sav'' \<and> endswith (lower name_part_before_ext) ''.gba''
         then fst (splitext name_part_before_ext)
         else name_part_before_ext)"

text \<open>
  Line 46: \<^verbatim>\<open>extensions and actual_ext.lower() not in [e.lower() for e in extensions]\<close>.
  \<^verbatim>\<open>None\<close> and the empty list are both false, so neither filters anything.
\<close>

definition rejected_by_extension :: "string list option \<Rightarrow> string \<Rightarrow> bool" where
  "rejected_by_extension extensions actual_ext =
     (case extensions of
        None \<Rightarrow> False
      | Some es \<Rightarrow> es \<noteq> [] \<and> lower actual_ext \<notin> set (map lower es))"

text \<open>
  One iteration of the loop at lines 36-65. The warning printed when
  \<^verbatim>\<open>getmtime\<close> raises is console output only and is left out; the file is skipped.
\<close>

definition scan_entry :: "world \<Rightarrow> string \<Rightarrow> string list option \<Rightarrow> snapshot \<Rightarrow> string \<Rightarrow> snapshot" where
  "scan_entry w directory_path extensions files_info filename =
     (if startswith filename ''._'' then files_info
      else let actual_ext = snd (splitext filename)
           in if rejected_by_extension extensions actual_ext then files_info
              else let full_path = path_join directory_path filename
                   in if isfile w full_path
                      then (case getmtime w full_path of
                              None \<Rightarrow> files_info
                            | Some m \<Rightarrow>
                                AList.update (lower (true_basename filename))
                                  \<lparr>path = full_path, mtime = m, ext = lower actual_ext\<rparr>
                                  files_info)
                      else files_info)"

definition get_file_info :: "world \<Rightarrow> string \<Rightarrow> string list option \<Rightarrow> py_error + snapshot" where
  "get_file_info w directory_path extensions =
     (if \<not> isdir w directory_path then Inr []
      else case listdir w directory_path of
             Inl e \<Rightarrow> Inl e
           | Inr names \<Rightarrow> Inr (foldl (scan_entry w directory_path extensions) [] names))"

section \<open>Comparator\<close>

text \<open>Line 82: the keys of both snapshots, without duplicates, in sorted order.\<close>

definition all_basenames :: "snapshot \<Rightarrow> snapshot \<Rightarrow> string list" where
  "all_basenames sd_info local_info = sort (remdups (map fst sd_info @ map fst local_info))"

text \<open>
  One iteration of the loop at lines 84-104. A stored record is a dictionary with three
  keys, hence true in a condition; \<^verbatim>\<open>.get\<close> gives \<^verbatim>\<open>None\<close> for a missing key.
\<close>

definition compare_entry :: "snapshot \<Rightarrow> snapshot \<Rightarrow> differences \<Rightarrow> string \<Rightarrow> differences" where
  "compare_entry sd_info local_info d bn =
     (case (map_of sd_info bn, map_of local_info bn) of
        (Some sd_file, None) \<Rightarrow> d\<lparr>sd_only := sd_only d @ [sd_file]\<rparr>
      | (None, Some local_file) \<Rightarrow> d\<lparr>local_only := local_only d @ [local_file]\<rparr>
      | (Some sd_file, Some local_file) \<Rightarrow>
          if \<bar>mtime sd_file - mtime local_file\<bar> > 1 \<or> ext sd_file \<noteq> ext local_file
          then d\<lparr>conflicts := conflicts d @
                    [\<lparr>basename = bn, sd = sd_file, local = local_file\<rparr>]\<rparr>
          else d
      | (None, None) \<Rightarrow> d)"

definition compare_folders :: "snapshot \<Rightarrow> snapshot \<Rightarrow> differences" where
  "compare_folders sd_info local_info =
     foldl (compare_entry sd_info local_info)
       \<lparr>sd_only = [], local_only = [], conflicts = []\<rparr>
       (all_basenames sd_info local_info)"

text \<open>
  What one key contributes to each of the three lists, and the exchange of the two sides
  of a conflict; they are used to state and prove the properties of the comparator.
\<close>

definition differs :: "file_info \<Rightarrow> file_info \<Rightarrow> bool" where
  "differs a b = (\<bar>mtime a - mtime b\<bar> > 1 \<or> ext a \<noteq> ext b)"

definition sd_only_of :: "snapshot \<Rightarrow> snapshot \<Rightarrow> string \<Rightarrow> file_info list" where
  "sd_only_of A B k =
     (case (map_of A k, map_of B k) of (Some a, None) \<Rightarrow> [a] | _ \<Rightarrow> [])"

definition local_only_of :: "snapshot \<Rightarrow> snapshot \<Rightarrow> string \<Rightarrow> file_info list" where
  "local_only_of A B k =
     (case (map_of A k, map_of B k) of (None, Some b) \<Rightarrow> [b] | _ \<Rightarrow> [])"

definition conflict_of :: "snapshot \<Rightarrow> snapshot \<Rightarrow> string \<Rightarrow> conflict list" where
  "conflict_of A B k =
     (case (map_of A k, map_of B k) of
        (Some a, Some b) \<Rightarrow> if differs a b then [\<lparr>basename = k, sd = a, local = b\<rparr>] else []
      | _ \<Rightarrow> [])"

definition swap_sides :: "conflict \<Rightarrow> conflict" where
  "swap_sides c = \<lparr>basename = basename c, sd = local c, local = sd c\<rparr>"

section \<open>Conversion invoker\<close>

text \<open>
  What the script prints, as data: the command echoed at line 130 just before the child
  process is started, and one line for each item a sync handles.
\<close>

datatype event =
    Initiating_sync
  | Executing "string list"
  | Copied string string
  | Error_copying string py_error
  | Resolved_conflict string string
  | Error_resolving string py_error
  | Skipping_similar string
  | Skipping_newer string
  | Sync_complete nat

text \<open>Lines 139-144; \<^verbatim>\<open>x.strip() or 'No Stderr'\<close> takes the default when the strip is empty.\<close>

definition conversion_error_message :: "string \<Rightarrow> string \<Rightarrow> string \<Rightarrow> completed_process \<Rightarrow> string" where
  "conversion_error_message script_name input_path output_path result =
     ''Conversion failed for '' @ path_basename input_path @ '' -> '' @
     path_basename output_path @ ''  using '' @ script_name @ ''.'' @ [CHR 0x0A] @
     ''Stderr: '' @ (if strip (stderr result) \<noteq> [] then strip (stderr result) else ''No Stderr'') @
     [CHR 0x0A] @
     ''Stdout: '' @ (if strip (stdout result) \<noteq> [] then strip (stdout result) else ''No Stdout'')"

text \<open>
  \<^verbatim>\<open>_run_conversion_script\<close>, lines 108-150. The two \<^verbatim>\<open>FileNotFoundError\<close>s and a failing
  \<^verbatim>\<open>makedirs\<close> are raised before the \<^verbatim>\<open>try\<close>; inside it, the \<^verbatim>\<open>RuntimeError\<close> of a
  non-zero exit status and any exception of \<^verbatim>\<open>subprocess.run\<close> are caught by
  \<^verbatim>\<open>except Exception\<close> and raised again as \<^verbatim>\<open>IOError\<close>.
\<close>

definition run_conversion_script ::
  "world \<Rightarrow> string \<Rightarrow> string \<Rightarrow> string \<Rightarrow> event list \<times> (py_error + string)" where
  "run_conversion_script w script_name input_path output_path =
     (let script_full_path = path_join (scripts_dir w) script_name
      in if \<not> path_exists w script_full_path
         then ([], Inl (FileNotFoundError
                 (''External conversion script not found: '' @ script_full_path)))
         else if \<not> isfile w script_full_path
         then ([], Inl (FileNotFoundError
                 (''External conversion script is not a file: '' @ script_full_path)))
         else let output_dir = path_dirname output_path
              in case (if output_dir \<noteq> [] \<and> \<not> path_exists w output_dir
                       then makedirs w output_dir else None) of
                   Some e \<Rightarrow> ([], Inl e)
                 | None \<Rightarrow>
                     let command = [executable w, script_full_path,
                                    ''-i'', input_path, ''-o'', output_path]
                     in ([Executing command],
                         case (case run w command (scripts_dir w) of
                                 Inl e \<Rightarrow> Inl e
                               | Inr result \<Rightarrow>
                                   if returncode result \<noteq> 0
                                   then Inl (RuntimeError
                                          (conversion_error_message script_name
                                             input_path output_path result))
                                   else Inr output_path) of
                           Inl e \<Rightarrow> Inl (IOError (''Failed to run conversion command: '' @
                                                  str_of_error e))
                         | Inr p \<Rightarrow> Inr p))"

section \<open>Sync director\<close>

text \<open>
  A sync returns what it only prints in the source: the final \<^verbatim>\<open>processed_count\<close> and the
  lines printed. The loop state is the pair of the count and the lines so far.
\<close>

type_synonym sync_state = "nat \<times> event list"

text \<open>Lines 164-175: one file found on the SD card only.\<close>

definition sd_to_local_copy :: "world \<Rightarrow> sync_state \<Rightarrow> file_info \<Rightarrow> sync_state" where
  "sd_to_local_copy w st sd_file =
     (let basename_for_output =
            fst (splitext (fst (splitext (path_basename (path sd_file)))));
          target_path = path_join LOCAL_SAVES_PATH (basename_for_output @ ''.srm'');
          (evs, r) = run_conversion_script w ''sav-to-srm.py'' (path sd_file) target_path
      in case r of
           Inr _ \<Rightarrow> (fst st + 1, snd st @ evs @
                       [Copied (path_basename (path sd_file)) (path_basename target_path)])
         | Inl e \<Rightarrow> (fst st, snd st @ evs @
                       [Error_copying (path_basename (path sd_file)) e]))"

text \<open>Lines 178-201: one conflict, SD card to local folder.\<close>

definition sd_to_local_conflict :: "world \<Rightarrow> sync_state \<Rightarrow> conflict \<Rightarrow> sync_state" where
  "sd_to_local_conflict w st c =
     (let sd_file = sd c; local_file = local c; basename_for_output = basename c
      in if mtime sd_file > mtime local_file
         then let target_path = path_join LOCAL_SAVES_PATH (basename_for_output @ ''.srm'');
                  (evs, r) = run_conversion_script w ''sav-to-srm.py'' (path sd_file) target_path
              in case r of
                   Inr _ \<Rightarrow> (fst st + 1, snd st @ evs @
                               [Resolved_conflict basename_for_output
                                  (path_basename (path sd_file))])
                 | Inl e \<Rightarrow> (fst st, snd st @ evs @ [Error_resolving basename_for_output e])
         else if ext sd_file = ''.sav'' \<and> ext local_file = ''.srm'' \<and>
                 \<bar>mtime sd_file - mtime local_file\<bar> \<le> 1
         then (fst st, snd st @ [Skipping_similar basename_for_output])
         else (fst st, snd st @ [Skipping_newer basename_for_output]))"

definition sync_sd_to_local :: "world \<Rightarrow> snapshot \<Rightarrow> snapshot \<Rightarrow> differences \<Rightarrow> sync_state" where
  "sync_sd_to_local w sd_info local_info d =
     (let st = foldl (sd_to_local_copy w) (0, [Initiating_sync]) (sd_only d);
          st = foldl (sd_to_local_conflict w) st (conflicts d)
      in (fst st, snd st @ [Sync_complete (fst st)]))"

text \<open>Lines 216-227: one file found in the local folder only.\<close>

definition local_to_sd_copy :: "world \<Rightarrow> sync_state \<Rightarrow> file_info \<Rightarrow> sync_state" where
  "local_to_sd_copy w st local_file =
     (let basename_for_output = fst (splitext (path_basename (path local_file)));
          target_path = path_join SD_CARD_SAVES_PATH (basename_for_output @ ''.gba.sav'');
          (evs, r) = run_conversion_script w ''srm-to-sav.py'' (path local_file) target_path
      in case r of
           Inr _ \<Rightarrow> (fst st + 1, snd st @ evs @
                       [Copied (path_basename (path local_file)) (path_basename target_path)])
         | Inl e \<Rightarrow> (fst st, snd st @ evs @
                       [Error_copying (path_basename (path local_file)) e]))"

text \<open>Lines 230-253: one conflict, local folder to SD card.\<close>

definition local_to_sd_conflict :: "world \<Rightarrow> sync_state \<Rightarrow> conflict \<Rightarrow> sync_state" where
  "local_to_sd_conflict w st c =
     (let sd_file = sd c; local_file = local c; basename_for_output = basename c
      in if mtime local_file > mtime sd_file
         then let target_path = path_join SD_CARD_SAVES_PATH (basename_for_output @ ''.gba.sav'');
                  (evs, r) = run_conversion_script w ''srm-to-sav.py'' (path local_file) target_path
              in case r of
                   Inr _ \<Rightarrow> (fst st + 1, snd st @ evs @
                               [Resolved_conflict basename_for_output
                                  (path_basename (path local_file))])
                 | Inl e \<Rightarrow> (fst st, snd st @ evs @ [Error_resolving basename_for_output e])
         else if ext sd_file = ''.sav'' \<and> ext local_file = ''.srm'' \<and>
                 \<bar>mtime sd_file - mtime local_file\<bar> \<le> 1
         then (fst st, snd st @ [Skipping_similar basename_for_output])
         else (fst st, snd st @ [Skipping_newer basename_for_output]))"

definition sync_local_to_sd :: "world \<Rightarrow> snapshot \<Rightarrow> snapshot \<Rightarrow> differences \<Rightarrow> sync_state" where
  "sync_local_to_sd w sd_info local_info d =
     (let st = foldl (local_to_sd_copy w) (0, [Initiating_sync]) (local_only d);
          st = foldl (local_to_sd_conflict w) st (conflicts d)
      in (fst st, snd st @ [Sync_complete (fst st)]))"

text \<open>
  Names for what the sync functions compute on the way: the command line of line 129, the
  checks that let the invoker reach the child process, the target paths of lines 169,
  187 and 239, and the commands echoed in a list of printed lines.
\<close>

definition conversion_command :: "world \<Rightarrow> string \<Rightarrow> string \<Rightarrow> string \<Rightarrow> string list" where
  "conversion_command w script_name input_path output_path =
     [executable w, path_join (scripts_dir w) script_name, ''-i'', input_path, ''-o'', output_path]"

definition tool_available :: "world \<Rightarrow> string \<Rightarrow> string \<Rightarrow> bool" where
  "tool_available w script_name output_path =
     (path_exists w (path_join (scripts_dir w) script_name) \<and>
      isfile w (path_join (scripts_dir w) script_name) \<and>
      (path_dirname output_path = [] \<or> path_exists w (path_dirname output_path) \<or>
       makedirs w (path_dirname output_path) = None))"

definition sd_only_target :: "file_info \<Rightarrow> string" where
  "sd_only_target sd_file =
     path_join LOCAL_SAVES_PATH
       (fst (splitext (fst (splitext (path_basename (path sd_file))))) @ ''.srm'')"

definition local_target :: "conflict \<Rightarrow> string" where
  "local_target c = path_join LOCAL_SAVES_PATH (basename c @ ''.srm'')"

definition sd_target :: "conflict \<Rightarrow> string" where
  "sd_target c = path_join SD_CARD_SAVES_PATH (basename c @ ''.gba.sav'')"

definition invocations :: "event list \<Rightarrow> string list list" where
  "invocations evs = concat (map (\<lambda>e. case e of Executing command \<Rightarrow> [command] | _ \<Rightarrow> []) evs)"

section \<open>An example environment\<close>

text \<open>A concrete environment, used to run the definitions on concrete inputs.\<close>

definition example_world :: world where
  "example_world =
     \<lparr>isdir = (\<lambda>p. p = ''/sd'' \<or> p = ''/odd''),
      listdir = (\<lambda>p. if p = ''/sd'' then Inr [''._mario.gba.sav'', ''Mario.GBA.SAV'', ''notes.txt'']
                     else if p = ''/odd'' then Inr [''.gba.sav'']
                     else Inl (OSError ''No such file or directory'')),
      isfile = (\<lambda>p. True),
      getmtime = (\<lambda>p. Some 100),
      path_exists = (\<lambda>p. True),
      makedirs = (\<lambda>p. None),
      run = (\<lambda>command cwd.
               if ''/sd/bad.gba.sav'' \<in> set command
               then Inr \<lparr>returncode = 1, stdout = '' reading '', stderr = '' bad header ''\<rparr>
               else Inr \<lparr>returncode = 0, stdout = ''done'', stderr = []\<rparr>),
      scripts_dir = ''/home/deck/gba-rom-save-tool/srm-to-sav'',
      executable = ''/usr/bin/python3''\<rparr>"

definition example_newer_sd :: conflict where
  "example_newer_sd =
     \<lparr>basename = ''mario'',
      sd = \<lparr>path = ''/sd/mario.gba.sav'', mtime = 200, ext = ''.sav''\<rparr>,
      local = \<lparr>path = ''/local/mario.srm'', mtime = 100, ext = ''.srm''\<rparr>\<rparr>"

definition example_older_sd :: conflict where
  "example_older_sd =
     \<lparr>basename = ''mario'',
      sd = \<lparr>path = ''/sd/mario.gba.sav'', mtime = 100, ext = ''.sav''\<rparr>,
      local = \<lparr>path = ''/local/mario.srm'', mtime = 100.5, ext = ''.srm''\<rparr>\<rparr>"

definition example_bad :: file_info where
  "example_bad = \<lparr>path = ''/sd/bad.gba.sav'', mtime = 50, ext = ''.sav''\<rparr>"

definition example_good :: file_info where
  "example_good = \<lparr>path = ''/sd/good.gba.sav'', mtime = 60, ext = ''.sav''\<rparr>"

section \<open>Properties of the comparator\<close>

lemma compare_entry_fields:
  "sd_only (compare_entry A B d k) = sd_only d @ sd_only_of A B k"
  "local_only (compare_entry A B d k) = local_only d @ local_only_of A B k"
  "conflicts (compare_entry A B d k) = conflicts d @ conflict_of A B k"
  by (simp_all add: compare_entry_def sd_only_of_def local_only_of_def conflict_of_def differs_def
      split: option.splits)

lemma foldl_compare_entry:
  "sd_only (foldl (compare_entry A B) d ks) = sd_only d @ concat (map (sd_only_of A B) ks)"
  "local_only (foldl (compare_entry A B) d ks) = local_only d @ concat (map (local_only_of A B) ks)"
  "conflicts (foldl (compare_entry A B) d ks) = conflicts d @ concat (map (conflict_of A B) ks)"
  by (induction ks arbitrary: d) (simp_all add: compare_entry_fields)

lemma compare_folders_fields:
  "sd_only (compare_folders A B) = concat (map (sd_only_of A B) (all_basenames A B))"
  "local_only (compare_folders A B) = concat (map (local_only_of A B) (all_basenames A B))"
  "conflicts (compare_folders A B) = concat (map (conflict_of A B) (all_basenames A B))"
  by (simp_all add: compare_folders_def foldl_compare_entry)

lemma all_basenames_commute: "all_basenames A B = all_basenames B A"
  unfolding all_basenames_def
  by (rule sorted_distinct_set_unique) (auto simp: Un_commute)

lemma set_all_basenames: "set (all_basenames A B) = fst ` set A \<union> fst ` set B"
  by (simp add: all_basenames_def)

lemma all_basenames_sorted: "sorted (all_basenames A B)" "distinct (all_basenames A B)"
  by (simp_all add: all_basenames_def)

lemma sd_only_of_swap: "sd_only_of A B = local_only_of B A"
  by (rule ext) (simp add: sd_only_of_def local_only_of_def split: option.splits)

lemma conflict_of_swap: "conflict_of A B k = map swap_sides (conflict_of B A k)"
  by (auto simp: conflict_of_def swap_sides_def differs_def abs_minus_commute split: option.splits)

text \<open>
  Claim C5. The comparator is symmetric: exchanging the two snapshots exchanges the two
  only-in lists, and the conflict list is the same list with the two records of every
  conflict exchanged.
\<close>

theorem compare_folders_symmetric:
  "sd_only (compare_folders A B) = local_only (compare_folders B A) \<and>
   local_only (compare_folders A B) = sd_only (compare_folders B A) \<and>
   conflicts (compare_folders A B) = map swap_sides (conflicts (compare_folders B A))"
proof -
  have ks: "all_basenames A B = all_basenames B A"
    by (rule all_basenames_commute)
  have "concat (map (conflict_of A B) ks) = map swap_sides (concat (map (conflict_of B A) ks))" for ks
    by (induction ks) (simp_all add: conflict_of_swap [of A B])
  then show ?thesis
    by (simp add: compare_folders_fields ks sd_only_of_swap)
qed

lemma all_basenames_delete:
  "all_basenames (AList.delete k A) (AList.delete k B) = filter (\<lambda>x. x \<noteq> k) (all_basenames A B)"
proof -
  have "map fst (AList.delete k X) = filter (\<lambda>x. x \<noteq> k) (map fst X)" for X :: snapshot
    by (induction X) (auto simp: AList.delete_eq)
  then show ?thesis
    by (simp add: all_basenames_def remdups_filter filter_sort flip: filter_append)
qed

lemma concat_map_filter_neq:
  assumes "f k = []" and "\<And>x. x \<noteq> k \<Longrightarrow> g x = f x"
  shows "concat (map g (filter (\<lambda>x. x \<noteq> k) ks)) = concat (map f ks)"
  using assms by (induction ks) simp_all

lemma compare_folders_delete:
  assumes "sd_only_of A B k = []" "local_only_of A B k = []" "conflict_of A B k = []"
  shows "compare_folders (AList.delete k A) (AList.delete k B) = compare_folders A B"
proof -
  let ?A = "AList.delete k A" and ?B = "AList.delete k B"
  have m: "map_of ?A x = map_of A x" "map_of ?B x = map_of B x" if "x \<noteq> k" for x
    using that by simp_all
  have 1: "sd_only (compare_folders ?A ?B) = sd_only (compare_folders A B)"
    unfolding compare_folders_fields all_basenames_delete
  proof (rule concat_map_filter_neq)
    show "sd_only_of A B k = []" by (rule assms)
    show "sd_only_of ?A ?B x = sd_only_of A B x" if "x \<noteq> k" for x
      using that by (simp add: sd_only_of_def)
  qed
  have 2: "local_only (compare_folders ?A ?B) = local_only (compare_folders A B)"
    unfolding compare_folders_fields all_basenames_delete
  proof (rule concat_map_filter_neq)
    show "local_only_of A B k = []" by (rule assms)
    show "local_only_of ?A ?B x = local_only_of A B x" if "x \<noteq> k" for x
      using that by (simp add: local_only_of_def)
  qed
  have 3: "conflicts (compare_folders ?A ?B) = conflicts (compare_folders A B)"
    unfolding compare_folders_fields all_basenames_delete
  proof (rule concat_map_filter_neq)
    show "conflict_of A B k = []" by (rule assms)
    show "conflict_of ?A ?B x = conflict_of A B x" if "x \<noteq> k" for x
      using that by (simp add: conflict_of_def)
  qed
  show ?thesis
    using 1 2 3 by (rule differences.equality) simp
qed

lemma conflict_key_iff:
  "(\<exists>c \<in> set (conflicts (compare_folders A B)). basename c = k) \<longleftrightarrow> conflict_of A B k \<noteq> []"
proof
  assume "\<exists>c \<in> set (conflicts (compare_folders A B)). basename c = k"
  then obtain c k' where c: "c \<in> set (conflict_of A B k')" and "basename c = k"
    by (auto simp: compare_folders_fields)
  then have "k' = k"
    by (auto simp: conflict_of_def split: option.splits if_splits)
  with c show "conflict_of A B k \<noteq> []"
    by auto
next
  assume ne: "conflict_of A B k \<noteq> []"
  then have "map_of A k \<noteq> None"
    by (auto simp: conflict_of_def split: option.splits)
  then have "k \<in> set (all_basenames A B)"
    by (simp add: set_all_basenames map_of_eq_None_iff)
  moreover from ne obtain c where "c \<in> set (conflict_of A B k)" "basename c = k"
    by (auto simp: conflict_of_def split: option.splits if_splits)
  ultimately show "\<exists>c \<in> set (conflicts (compare_folders A B)). basename c = k"
    by (auto simp: compare_folders_fields)
qed


text \<open>
  Claim C1. For a key present in both snapshots, the comparator lists a conflict under
  that key exactly when the modification times differ by more than one second or the
  extensions differ, and that conflict carries the two records. A pair within the
  tolerance with equal extensions leaves no trace: the result is the one obtained with
  the key removed from both snapshots. Different extensions give a conflict even when the
  modification times are equal.
\<close>

theorem compare_folders_conflict_iff:
  assumes "map_of A k = Some a" and "map_of B k = Some b"
  shows "((\<exists>c \<in> set (conflicts (compare_folders A B)). basename c = k) \<longleftrightarrow>
            (\<bar>mtime a - mtime b\<bar> > 1 \<or> ext a \<noteq> ext b)) \<and>
         (\<forall>c \<in> set (conflicts (compare_folders A B)).
            basename c = k \<longrightarrow> sd c = a \<and> local c = b) \<and>
         (\<not> (\<bar>mtime a - mtime b\<bar> > 1 \<or> ext a \<noteq> ext b) \<longrightarrow>
            compare_folders A B = compare_folders (AList.delete k A) (AList.delete k B)) \<and>
         (mtime a = mtime b \<and> ext a \<noteq> ext b \<longrightarrow>
            \<lparr>basename = k, sd = a, local = b\<rparr> \<in> set (conflicts (compare_folders A B)))"
proof -
  have co: "conflict_of A B k = (if differs a b then [\<lparr>basename = k, sd = a, local = b\<rparr>] else [])"
    by (simp add: conflict_of_def assms)
  have so: "sd_only_of A B k = []" and lo: "local_only_of A B k = []"
    by (simp_all add: sd_only_of_def local_only_of_def assms)
  have k_in: "k \<in> set (all_basenames A B)"
  proof -
    from assms(1) have "map_of A k \<noteq> None" by simp
    then show ?thesis
      by (simp add: set_all_basenames map_of_eq_None_iff)
  qed
  have 1: "(\<exists>c \<in> set (conflicts (compare_folders A B)). basename c = k) \<longleftrightarrow>
             (\<bar>mtime a - mtime b\<bar> > 1 \<or> ext a \<noteq> ext b)"
    by (simp add: conflict_key_iff co differs_def)
  have 2: "sd c = a \<and> local c = b"
    if "c \<in> set (conflicts (compare_folders A B))" and "basename c = k" for c
  proof -
    from that obtain k' where c: "c \<in> set (conflict_of A B k')"
      by (auto simp: compare_folders_fields)
    with that(2) have "k' = k"
      by (auto simp: conflict_of_def split: option.splits if_splits)
    with c show ?thesis
      by (auto simp: co split: if_splits)
  qed
  have 3: "compare_folders A B = compare_folders (AList.delete k A) (AList.delete k B)"
    if "\<not> (\<bar>mtime a - mtime b\<bar> > 1 \<or> ext a \<noteq> ext b)"
  proof -
    from that have "conflict_of A B k = []"
      by (simp add: co differs_def)
    with so lo show ?thesis
      by (simp add: compare_folders_delete)
  qed
  have 4: "\<lparr>basename = k, sd = a, local = b\<rparr> \<in> set (conflicts (compare_folders A B))"
    if "mtime a = mtime b \<and> ext a \<noteq> ext b"
  proof -
    from that have "\<lparr>basename = k, sd = a, local = b\<rparr> \<in> set (conflict_of A B k)"
      by (simp add: co differs_def)
    with k_in show ?thesis
      by (auto simp: compare_folders_fields)
  qed
  from 1 2 3 4 show ?thesis
    by blast
qed

theorem compare_folders_conflict_iff_witness:
  "map_of [(''zelda'', \<lparr>path = ''/sd/zelda.gba.sav'', mtime = 10, ext = ''.sav''\<rparr>)] ''zelda''
     = Some \<lparr>path = ''/sd/zelda.gba.sav'', mtime = 10, ext = ''.sav''\<rparr> \<and>
   map_of [(''zelda'', \<lparr>path = ''/l/zelda.sav'', mtime = 12, ext = ''.sav''\<rparr>)] ''zelda''
     = Some \<lparr>path = ''/l/zelda.sav'', mtime = 12, ext = ''.sav''\<rparr> \<and>
   (\<exists>c \<in> set (conflicts (compare_folders
        [(''zelda'', \<lparr>path = ''/sd/zelda.gba.sav'', mtime = 10, ext = ''.sav''\<rparr>)]
        [(''zelda'', \<lparr>path = ''/l/zelda.sav'', mtime = 12, ext = ''.sav''\<rparr>)])).
      basename c = ''zelda'')"
proof -
  let ?a = "\<lparr>path = ''/sd/zelda.gba.sav'', mtime = 10, ext = ''.sav''\<rparr>"
  let ?b = "\<lparr>path = ''/l/zelda.sav'', mtime = 12, ext = ''.sav''\<rparr>"
  have h1: "map_of [(''zelda'', ?a)] ''zelda'' = Some ?a" by simp
  have h2: "map_of [(''zelda'', ?b)] ''zelda'' = Some ?b" by simp
  from compare_folders_conflict_iff [OF h1 h2] show ?thesis
    by simp
qed

text \<open>
  Claim C2 says that the pair \<open>mario\<close> with modification times 100 and 100.5 and
  extensions \<^verbatim>\<open>.sav\<close> and \<^verbatim>\<open>.srm\<close> is omitted. The conflict list is not empty there.
\<close>

theorem mario_pair_is_conflict_counterexample:
  "\<not> (conflicts (compare_folders
        [(''mario'', \<lparr>path = ''/sd/mario.gba.sav'', mtime = 100, ext = ''.sav''\<rparr>)]
        [(''mario'', \<lparr>path = ''/local/mario.srm'', mtime = 100.5, ext = ''.srm''\<rparr>)]) = [])"
  by (simp add: compare_folders_def all_basenames_def compare_entry_def)

text \<open>
  Claim C2, amended. For snapshot A mapping \<open>mario\<close> to a record with modification time
  100 and extension \<^verbatim>\<open>.sav\<close>, and snapshot B mapping \<open>mario\<close> to a record with modification
  time 100.5 and extension \<^verbatim>\<open>.srm\<close>, the comparator classifies the pair as a conflict,
  because the extensions differ; both only-in lists are empty.
\<close>

theorem mario_pair_is_conflict:
  "compare_folders
     [(''mario'', \<lparr>path = pa, mtime = 100, ext = ''.sav''\<rparr>)]
     [(''mario'', \<lparr>path = pb, mtime = 100.5, ext = ''.srm''\<rparr>)] =
   \<lparr>sd_only = [], local_only = [],
    conflicts = [\<lparr>basename = ''mario'',
                  sd = \<lparr>path = pa, mtime = 100, ext = ''.sav''\<rparr>,
                  local = \<lparr>path = pb, mtime = 100.5, ext = ''.srm''\<rparr>\<rparr>]\<rparr>"
  by (simp add: compare_folders_def all_basenames_def compare_entry_def)

section \<open>Properties of the scanner\<close>

lemma lower_char_fixes:
  assumes "(of_char c :: nat) < 65"
  shows "lower_char x = c \<longleftrightarrow> x = c"
proof
  assume "x = c"
  with assms show "lower_char x = c"
    by (simp add: lower_char_def Let_def)
next
  assume h: "lower_char x = c"
  show "x = c"
  proof (rule ccontr)
    assume "x \<noteq> c"
    with h have up: "(65 \<le> (of_char x :: nat) \<and> (of_char x :: nat) \<le> 90) \<or>
        (192 \<le> (of_char x :: nat) \<and> (of_char x :: nat) \<le> 222 \<and> (of_char x :: nat) \<noteq> 215)"
      and eq: "char_of ((of_char x :: nat) + 32) = c"
      by (auto simp: lower_char_def Let_def split: if_splits)
    from eq have "(of_char (char_of ((of_char x :: nat) + 32) :: char) :: nat) = of_char c"
      by simp
    then have "((of_char x :: nat) + 32) mod 256 = of_char c"
      by simp
    with up assms show False
      by auto
  qed
qed

lemma lower_char_sep [simp]:
  "lower_char x = CHR ''/'' \<longleftrightarrow> x = CHR ''/''"
  "lower_char x = CHR ''.'' \<longleftrightarrow> x = CHR ''.''"
  "CHR ''/'' = lower_char x \<longleftrightarrow> x = CHR ''/''"
  "CHR ''.'' = lower_char x \<longleftrightarrow> x = CHR ''.''"
  using lower_char_fixes [of "CHR ''/''" x] lower_char_fixes [of "CHR ''.''" x] by auto

lemma lower_char_idem [simp]: "lower_char (lower_char c) = lower_char c"
proof (cases "(65 \<le> (of_char c :: nat) \<and> (of_char c :: nat) \<le> 90) \<or>
        (192 \<le> (of_char c :: nat) \<and> (of_char c :: nat) \<le> 222 \<and> (of_char c :: nat) \<noteq> 215)")
  case False
  then show ?thesis
    by (auto simp: lower_char_def Let_def)
next
  case True
  then have l: "lower_char c = char_of ((of_char c :: nat) + 32)"
    by (simp add: lower_char_def Let_def)
  from True have "(of_char (char_of ((of_char c :: nat) + 32) :: char) :: nat) = of_char c + 32"
    by auto
  with True show ?thesis
    unfolding l by (auto simp: lower_char_def Let_def simp del: of_char_of)
qed

lemma lower_idem [simp]: "lower (lower s) = lower s"
  by (simp add: lower_def)

lemma lower_simps [simp]:
  "lower [] = []" "length (lower s) = length s"
  "lower (take n s) = take n (lower s)" "lower (drop n s) = drop n (lower s)"
  by (simp_all add: lower_def take_map drop_map)

lemma rfind_lower:
  assumes "c = CHR ''/'' \<or> c = CHR ''.''"
  shows "rfind (lower s) c = rfind s c"
proof -
  have p: "(\<lambda>x. lower_char x \<noteq> c) = (\<lambda>x. x \<noteq> c)"
    using assms by auto
  have m: "c \<in> set (lower s) \<longleftrightarrow> c \<in> set s"
    using assms by (induction s) (auto simp: lower_def)
  have "takeWhile (\<lambda>x. x \<noteq> c) (rev (lower s)) = map lower_char (takeWhile (\<lambda>x. x \<noteq> c) (rev s))"
    by (simp add: lower_def rev_map takeWhile_map comp_def p)
  then show ?thesis
    by (simp add: rfind_def m)
qed

lemma splitext_lower: "splitext (lower p) = (lower (fst (splitext p)), lower (snd (splitext p)))"
proof -
  have "list_ex (\<lambda>c. c \<noteq> CHR ''.'') (take n (drop m (lower p))) =
        list_ex (\<lambda>c. c \<noteq> CHR ''.'') (take n (drop m p))" for n m
    by (auto simp: list_ex_iff lower_def drop_map take_map)
  then show ?thesis
    by (simp add: splitext_def rfind_lower Let_def)
qed

lemma true_basename_lower: "true_basename (lower f) = lower (true_basename f)"
  by (simp add: true_basename_def splitext_lower split_beta)

lemma set_update_cases:
  "(k', v') \<in> set (AList.update k v al) \<Longrightarrow> (k', v') = (k, v) \<or> (k', v') \<in> set al"
  by (induction al) (auto split: if_splits)

lemma scan_entry_provenance:
  assumes "(k, r) \<in> set (scan_entry w d exts acc f)"
  shows "(k, r) \<in> set acc \<or>
         (\<not> startswith f ''._'' \<and> \<not> rejected_by_extension exts (snd (splitext f)) \<and>
          isfile w (path_join d f) \<and> getmtime w (path_join d f) = Some (mtime r) \<and>
          k = lower (true_basename f) \<and> path r = path_join d f \<and>
          ext r = lower (snd (splitext f)))"
  using assms
  by (auto simp: scan_entry_def Let_def split: if_splits option.splits dest!: set_update_cases)

lemma scan_entries_provenance:
  assumes "(k, r) \<in> set (foldl (scan_entry w d exts) acc names)"
  shows "(k, r) \<in> set acc \<or>
         (\<exists>f \<in> set names.
            \<not> startswith f ''._'' \<and> \<not> rejected_by_extension exts (snd (splitext f)) \<and>
            isfile w (path_join d f) \<and> getmtime w (path_join d f) = Some (mtime r) \<and>
            k = lower (true_basename f) \<and> path r = path_join d f \<and>
            ext r = lower (snd (splitext f)))"
  using assms
proof (induction names arbitrary: acc)
  case Nil
  then show ?case by simp
next
  case (Cons n names)
  from Cons.prems have "(k, r) \<in> set (foldl (scan_entry w d exts) (scan_entry w d exts acc n) names)"
    by simp
  from Cons.IH [OF this] show ?case
    using scan_entry_provenance [of k r w d exts acc n] by auto
qed

lemma get_file_info_provenance:
  assumes "get_file_info w d exts = Inr snap" and "(k, r) \<in> set snap"
  shows "\<exists>names f. listdir w d = Inr names \<and> f \<in> set names \<and>
            \<not> startswith f ''._'' \<and> \<not> rejected_by_extension exts (snd (splitext f)) \<and>
            isfile w (path_join d f) \<and> getmtime w (path_join d f) = Some (mtime r) \<and>
            k = lower (true_basename f) \<and> path r = path_join d f \<and>
            ext r = lower (snd (splitext f))"
proof -
  from assms obtain names where n: "listdir w d = Inr names"
    and s: "snap = foldl (scan_entry w d exts) [] names"
    by (auto simp: get_file_info_def split: if_splits sum.splits)
  from assms(2) scan_entries_provenance [of k r w d exts "[]" names] n show ?thesis
    unfolding s by auto
qed

lemma path_join_inject:
  assumes "\<not> startswith f ''/''" and "\<not> startswith g ''/''" and "path_join d f = path_join d g"
  shows "f = g"
  using assms by (auto simp: path_join_def split: if_splits)

lemma startswith_sep: "startswith f ''/'' \<Longrightarrow> CHR ''/'' \<in> set f"
  by (cases f) (auto simp: startswith_def)

lemma example_scan_sd:
  "get_file_info example_world ''/sd'' (Some [''.sav'']) =
     Inr [(''mario'', \<lparr>path = ''/sd/Mario.GBA.SAV'', mtime = 100, ext = ''.sav''\<rparr>)]"
  by code_simp

text \<open>
  On the names the script expects, both storage conventions give the same key.
\<close>

lemma expected_names_same_key:
  "lower (true_basename ''My_Game.gba.sav'') = ''my_game'' \<and>
   lower (true_basename ''my_game.srm'') = ''my_game''"
  by code_simp

text \<open>
  Claim C9 says that the \<^verbatim>\<open>.gba\<close> segment is stripped whenever the extension is
  \<^verbatim>\<open>.sav\<close> and the remaining name ends in \<^verbatim>\<open>.gba\<close>. For the file \<^verbatim>\<open>.gba.sav\<close> the
  remaining name is \<^verbatim>\<open>.gba\<close>, whose only dot is a leading dot, so the second
  \<^verbatim>\<open>splitext\<close> strips nothing and the stored key is \<^verbatim>\<open>.gba\<close>, not the empty title.
\<close>

theorem dot_gba_suffix_not_stripped:
  "get_file_info example_world ''/odd'' (Some [''.sav'']) =
     Inr [(''.gba'', \<lparr>path = ''/odd/.gba.sav'', mtime = 100, ext = ''.sav''\<rparr>)]"
  by code_simp

text \<open>
  Claim C7. Whatever the extensions filter, scanning a path that is not an existing
  directory returns the empty snapshot and raises nothing.
\<close>

theorem get_file_info_missing_directory:
  "\<not> isdir w directory_path \<Longrightarrow> get_file_info w directory_path extensions = Inr []"
  by (simp add: get_file_info_def)

theorem get_file_info_missing_directory_witness:
  "\<not> isdir example_world ''/missing'' \<and>
   get_file_info example_world ''/missing'' (Some [''.sav'']) = Inr []"
proof -
  have h: "\<not> isdir example_world ''/missing''"
    by (simp add: example_world_def)
  from h get_file_info_missing_directory [OF h] show ?thesis
    by simp
qed

text \<open>
  Claim C8. Whatever the directory listing and the extensions filter, no record of the
  snapshot is the file of a name starting with \<^verbatim>\<open>._\<close>: every record comes from a listed
  name without that prefix. Names in a directory listing contain no separator.
\<close>

theorem metadata_prefix_never_in_snapshot:
  assumes "get_file_info w d exts = Inr snap"
    and "listdir w d = Inr names"
    and "\<forall>n \<in> set names. CHR ''/'' \<notin> set n"
    and "startswith f ''._''"
  shows "\<forall>(k, r) \<in> set snap.
           path r \<noteq> path_join d f \<and>
           (\<exists>n \<in> set names. \<not> startswith n ''._'' \<and> path r = path_join d n)"
proof -
  have "path r \<noteq> path_join d f \<and>
        (\<exists>n \<in> set names. \<not> startswith n ''._'' \<and> path r = path_join d n)"
    if "(k, r) \<in> set snap" for k r
  proof -
    from get_file_info_provenance [OF assms(1) that] assms(2)
    obtain n where n: "n \<in> set names" "\<not> startswith n ''._''" "path r = path_join d n"
      by auto
    from n(1) assms(3) have "\<not> startswith n ''/''"
      using startswith_sep by blast
    moreover from assms(4) have "\<not> startswith f ''/''"
      by (cases f) (auto simp: startswith_def)
    moreover from n(2) assms(4) have "n \<noteq> f"
      by auto
    ultimately have "path_join d n \<noteq> path_join d f"
      using path_join_inject by blast
    with n show ?thesis
      by auto
  qed
  then show ?thesis
    by auto
qed

theorem metadata_prefix_never_in_snapshot_witness:
  "get_file_info example_world ''/sd'' (Some [''.sav'']) =
     Inr [(''mario'', \<lparr>path = ''/sd/Mario.GBA.SAV'', mtime = 100, ext = ''.sav''\<rparr>)] \<and>
   listdir example_world ''/sd'' = Inr [''._mario.gba.sav'', ''Mario.GBA.SAV'', ''notes.txt''] \<and>
   CHR ''/'' \<notin> set ''._mario.gba.sav'' \<and> CHR ''/'' \<notin> set ''Mario.GBA.SAV'' \<and>
   CHR ''/'' \<notin> set ''notes.txt'' \<and>
   startswith ''._mario.gba.sav'' ''._'' \<and>
   path \<lparr>path = ''/sd/Mario.GBA.SAV'', mtime = 100, ext = ''.sav''\<rparr> \<noteq>
     path_join ''/sd'' ''._mario.gba.sav''"
proof -
  have h2: "listdir example_world ''/sd'' = Inr [''._mario.gba.sav'', ''Mario.GBA.SAV'', ''notes.txt'']"
    by (simp add: example_world_def)
  have h3: "\<forall>n \<in> set [''._mario.gba.sav'', ''Mario.GBA.SAV'', ''notes.txt'']. CHR ''/'' \<notin> set n"
    by simp
  have h4: "startswith ''._mario.gba.sav'' ''._''"
    by (simp add: startswith_def)
  from metadata_prefix_never_in_snapshot [OF example_scan_sd h2 h3 h4] example_scan_sd h2 h3 h4
  show ?thesis
    by simp
qed

text \<open>
  Claim C10. Every record of a snapshot has a lower-cased extension (and a lower-cased
  key), and both are what the scanner computes from the lower-cased file name, so the
  casing of a name on disk does not reach the extension tests of the comparator and of
  the sync directors.
\<close>

theorem stored_extension_lower_case:
  assumes "get_file_info w d exts = Inr snap" and "(k, r) \<in> set snap"
  shows "lower (ext r) = ext r \<and> lower k = k \<and>
         (\<exists>names f. listdir w d = Inr names \<and> f \<in> set names \<and>
            path r = path_join d f \<and>
            ext r = snd (splitext (lower f)) \<and> k = true_basename (lower f))"
proof -
  from get_file_info_provenance [OF assms]
  obtain names f where f: "listdir w d = Inr names" "f \<in> set names"
    "k = lower (true_basename f)" "path r = path_join d f" "ext r = lower (snd (splitext f))"
    by blast
  then show ?thesis
    by (auto simp: splitext_lower true_basename_lower)
qed

theorem stored_extension_lower_case_witness:
  "get_file_info example_world ''/sd'' (Some [''.sav'']) =
     Inr [(''mario'', \<lparr>path = ''/sd/Mario.GBA.SAV'', mtime = 100, ext = ''.sav''\<rparr>)] \<and>
   (''mario'', \<lparr>path = ''/sd/Mario.GBA.SAV'', mtime = 100, ext = ''.sav''\<rparr>)
     \<in> set [(''mario'', \<lparr>path = ''/sd/Mario.GBA.SAV'', mtime = 100, ext = ''.sav''\<rparr>)] \<and>
   lower ''.sav'' = ''.sav'' \<and> lower ''mario'' = ''mario''"
proof -
  have h2: "(''mario'', \<lparr>path = ''/sd/Mario.GBA.SAV'', mtime = 100, ext = ''.sav''\<rparr>)
     \<in> set [(''mario'', \<lparr>path = ''/sd/Mario.GBA.SAV'', mtime = 100, ext = ''.sav''\<rparr>)]"
    by simp
  from stored_extension_lower_case [OF example_scan_sd h2] example_scan_sd
  show ?thesis
    by simp
qed

section \<open>Properties of the invoker and the sync director\<close>

lemma run_conversion_script_exit:
  assumes "tool_available w script_name output_path"
    and "run w (conversion_command w script_name input_path output_path) (scripts_dir w) = Inr result"
  shows "run_conversion_script w script_name input_path output_path =
           ([Executing (conversion_command w script_name input_path output_path)],
            if returncode result \<noteq> 0
            then Inl (IOError (''Failed to run conversion command: '' @
                   conversion_error_message script_name input_path output_path result))
            else Inr output_path)"
  using assms
  by (auto simp: run_conversion_script_def tool_available_def conversion_command_def Let_def)

lemma foldl_shift:
  fixes step :: "sync_state \<Rightarrow> 'a \<Rightarrow> sync_state"
  assumes "\<And>st x. step st x = (fst st + fst (step (0, []) x), snd st @ snd (step (0, []) x))"
  shows "foldl step st xs =
           (fst st + sum_list (map (\<lambda>x. fst (step (0, []) x)) xs),
            snd st @ concat (map (\<lambda>x. snd (step (0, []) x)) xs))"
proof (induction xs arbitrary: st)
  case Nil
  then show ?case by simp
next
  case (Cons x xs)
  have "foldl step st (x # xs) = foldl step (step st x) xs"
    by simp
  also have "\<dots> = (fst (step st x) + sum_list (map (\<lambda>x. fst (step (0, []) x)) xs),
            snd (step st x) @ concat (map (\<lambda>x. snd (step (0, []) x)) xs))"
    by (rule Cons.IH)
  also have "step st x = (fst st + fst (step (0, []) x), snd st @ snd (step (0, []) x))"
    by (rule assms)
  finally show ?case
    by (simp add: add.assoc)
qed

lemma sd_to_local_copy_shift:
  "sd_to_local_copy w st x =
     (fst st + fst (sd_to_local_copy w (0, []) x), snd st @ snd (sd_to_local_copy w (0, []) x))"
  by (simp add: sd_to_local_copy_def Let_def split: prod.splits sum.splits)

lemma sd_to_local_conflict_shift:
  "sd_to_local_conflict w st x =
     (fst st + fst (sd_to_local_conflict w (0, []) x),
      snd st @ snd (sd_to_local_conflict w (0, []) x))"
  by (simp add: sd_to_local_conflict_def Let_def split: prod.splits sum.splits)

lemma local_to_sd_copy_shift:
  "local_to_sd_copy w st x =
     (fst st + fst (local_to_sd_copy w (0, []) x), snd st @ snd (local_to_sd_copy w (0, []) x))"
  by (simp add: local_to_sd_copy_def Let_def split: prod.splits sum.splits)

lemma local_to_sd_conflict_shift:
  "local_to_sd_conflict w st x =
     (fst st + fst (local_to_sd_conflict w (0, []) x),
      snd st @ snd (local_to_sd_conflict w (0, []) x))"
  by (simp add: local_to_sd_conflict_def Let_def split: prod.splits sum.splits)

lemma sync_sd_to_local_sum:
  "fst (sync_sd_to_local w A B d) =
     sum_list (map (\<lambda>x. fst (sd_to_local_copy w (0, []) x)) (sd_only d)) +
     sum_list (map (\<lambda>x. fst (sd_to_local_conflict w (0, []) x)) (conflicts d))"
  "snd (sync_sd_to_local w A B d) =
     Initiating_sync # concat (map (\<lambda>x. snd (sd_to_local_copy w (0, []) x)) (sd_only d)) @
     concat (map (\<lambda>x. snd (sd_to_local_conflict w (0, []) x)) (conflicts d)) @
     [Sync_complete (fst (sync_sd_to_local w A B d))]"
  by (simp_all add: sync_sd_to_local_def Let_def
      foldl_shift [of "sd_to_local_copy w", OF sd_to_local_copy_shift]
      foldl_shift [of "sd_to_local_conflict w", OF sd_to_local_conflict_shift])

lemma sync_local_to_sd_sum:
  "fst (sync_local_to_sd w A B d) =
     sum_list (map (\<lambda>x. fst (local_to_sd_copy w (0, []) x)) (local_only d)) +
     sum_list (map (\<lambda>x. fst (local_to_sd_conflict w (0, []) x)) (conflicts d))"
  "snd (sync_local_to_sd w A B d) =
     Initiating_sync # concat (map (\<lambda>x. snd (local_to_sd_copy w (0, []) x)) (local_only d)) @
     concat (map (\<lambda>x. snd (local_to_sd_conflict w (0, []) x)) (conflicts d)) @
     [Sync_complete (fst (sync_local_to_sd w A B d))]"
  by (simp_all add: sync_local_to_sd_def Let_def
      foldl_shift [of "local_to_sd_copy w", OF local_to_sd_copy_shift]
      foldl_shift [of "local_to_sd_conflict w", OF local_to_sd_conflict_shift])

lemma sd_to_local_conflict_newer:
  assumes "mtime (sd c) > mtime (local c)"
  shows "sd_to_local_conflict w (n, out) c =
           (case snd (run_conversion_script w ''sav-to-srm.py'' (path (sd c)) (local_target c)) of
              Inr _ \<Rightarrow> (n + 1, out @
                  fst (run_conversion_script w ''sav-to-srm.py'' (path (sd c)) (local_target c)) @
                  [Resolved_conflict (basename c) (path_basename (path (sd c)))])
            | Inl e \<Rightarrow> (n, out @
                  fst (run_conversion_script w ''sav-to-srm.py'' (path (sd c)) (local_target c)) @
                  [Error_resolving (basename c) e]))"
  using assms
  by (simp add: sd_to_local_conflict_def local_target_def Let_def split: prod.splits sum.splits)

lemma sd_to_local_conflict_not_newer:
  assumes "\<not> mtime (sd c) > mtime (local c)"
  shows "sd_to_local_conflict w (n, out) c =
           (n, out @ [if ext (sd c) = ''.sav'' \<and> ext (local c) = ''.srm'' \<and>
                         \<bar>mtime (sd c) - mtime (local c)\<bar> \<le> 1
                      then Skipping_similar (basename c) else Skipping_newer (basename c)])"
  using assms by (simp add: sd_to_local_conflict_def Let_def)

lemma local_to_sd_conflict_newer:
  assumes "mtime (local c) > mtime (sd c)"
  shows "local_to_sd_conflict w (n, out) c =
           (case snd (run_conversion_script w ''srm-to-sav.py'' (path (local c)) (sd_target c)) of
              Inr _ \<Rightarrow> (n + 1, out @
                  fst (run_conversion_script w ''srm-to-sav.py'' (path (local c)) (sd_target c)) @
                  [Resolved_conflict (basename c) (path_basename (path (local c)))])
            | Inl e \<Rightarrow> (n, out @
                  fst (run_conversion_script w ''srm-to-sav.py'' (path (local c)) (sd_target c)) @
                  [Error_resolving (basename c) e]))"
  using assms
  by (simp add: local_to_sd_conflict_def sd_target_def Let_def split: prod.splits sum.splits)

lemma local_to_sd_conflict_not_newer:
  assumes "\<not> mtime (local c) > mtime (sd c)"
  shows "local_to_sd_conflict w (n, out) c =
           (n, out @ [if ext (sd c) = ''.sav'' \<and> ext (local c) = ''.srm'' \<and>
                         \<bar>mtime (sd c) - mtime (local c)\<bar> \<le> 1
                      then Skipping_similar (basename c) else Skipping_newer (basename c)])"
  using assms by (simp add: local_to_sd_conflict_def Let_def)

text \<open>
  Claim C4. For a conflict whose SD record has modification time 200 and whose local
  record has modification time 100, and a conversion tool that succeeds, the sync from
  SD to local runs the conversion and counts the item: alone it gives the count 1, and
  in any batch it adds one to the count. The sync from local to SD skips the same
  conflict, starts no conversion for it and adds nothing to its count.
\<close>

theorem newer_sd_conflict_processed_once:
  assumes "mtime (sd c) = 200" and "mtime (local c) = 100"
    and "tool_available w ''sav-to-srm.py'' (local_target c)"
    and "run w (conversion_command w ''sav-to-srm.py'' (path (sd c)) (local_target c))
           (scripts_dir w) = Inr result"
    and "returncode result = 0"
  shows "sync_sd_to_local w A B \<lparr>sd_only = [], local_only = lo, conflicts = [c]\<rparr> =
           (1, [Initiating_sync,
                Executing (conversion_command w ''sav-to-srm.py'' (path (sd c)) (local_target c)),
                Resolved_conflict (basename c) (path_basename (path (sd c))),
                Sync_complete 1]) \<and>
         sync_local_to_sd w A B \<lparr>sd_only = so, local_only = [], conflicts = [c]\<rparr> =
           (0, [Initiating_sync, Skipping_newer (basename c), Sync_complete 0]) \<and>
         fst (sync_sd_to_local w A B (d\<lparr>conflicts := cs1 @ c # cs2\<rparr>)) =
           fst (sync_sd_to_local w A B (d\<lparr>conflicts := cs1 @ cs2\<rparr>)) + 1 \<and>
         fst (sync_local_to_sd w A B (d\<lparr>conflicts := cs1 @ c # cs2\<rparr>)) =
           fst (sync_local_to_sd w A B (d\<lparr>conflicts := cs1 @ cs2\<rparr>))"
proof -
  have r: "run_conversion_script w ''sav-to-srm.py'' (path (sd c)) (local_target c) =
      ([Executing (conversion_command w ''sav-to-srm.py'' (path (sd c)) (local_target c))],
       Inr (local_target c))"
    using run_conversion_script_exit [OF assms(3) assms(4)] assms(5) by simp
  have newer: "mtime (sd c) > mtime (local c)"
    using assms(1,2) by simp
  have a: "sd_to_local_conflict w (n, out) c =
      (n + 1, out @
        [Executing (conversion_command w ''sav-to-srm.py'' (path (sd c)) (local_target c)),
         Resolved_conflict (basename c) (path_basename (path (sd c)))])" for n out
    by (simp add: sd_to_local_conflict_newer [OF newer] r)
  have b: "local_to_sd_conflict w (n, out) c = (n, out @ [Skipping_newer (basename c)])" for n out
    using assms(1,2) by (simp add: local_to_sd_conflict_not_newer)
  have 1: "sync_sd_to_local w A B \<lparr>sd_only = [], local_only = lo, conflicts = [c]\<rparr> =
           (1, [Initiating_sync,
                Executing (conversion_command w ''sav-to-srm.py'' (path (sd c)) (local_target c)),
                Resolved_conflict (basename c) (path_basename (path (sd c))),
                Sync_complete 1])"
    by (simp add: sync_sd_to_local_def a)
  have 2: "sync_local_to_sd w A B \<lparr>sd_only = so, local_only = [], conflicts = [c]\<rparr> =
           (0, [Initiating_sync, Skipping_newer (basename c), Sync_complete 0])"
    by (simp add: sync_local_to_sd_def b)
  have 3: "fst (sync_sd_to_local w A B (d\<lparr>conflicts := cs1 @ c # cs2\<rparr>)) =
           fst (sync_sd_to_local w A B (d\<lparr>conflicts := cs1 @ cs2\<rparr>)) + 1"
    by (simp add: sync_sd_to_local_sum a)
  have 4: "fst (sync_local_to_sd w A B (d\<lparr>conflicts := cs1 @ c # cs2\<rparr>)) =
           fst (sync_local_to_sd w A B (d\<lparr>conflicts := cs1 @ cs2\<rparr>))"
    by (simp add: sync_local_to_sd_sum b)
  from 1 2 3 4 show ?thesis
    by simp
qed

lemma error_message_carries_streams:
  "\<exists>pre mid post. conversion_error_message script_name input_path output_path result =
      pre @ strip (stderr result) @ mid @ strip (stdout result) @ post"
proof -
  let ?h = "''Conversion failed for '' @ path_basename input_path @ '' -> '' @
     path_basename output_path @ ''  using '' @ script_name @ ''.'' @ [CHR 0x0A] @ ''Stderr: ''"
  let ?m = "[CHR 0x0A] @ ''Stdout: ''"
  let ?msg = "conversion_error_message script_name input_path output_path result"
  consider (both) "strip (stderr result) \<noteq> []" "strip (stdout result) \<noteq> []"
    | (err) "strip (stderr result) \<noteq> []" "strip (stdout result) = []"
    | (out) "strip (stderr result) = []" "strip (stdout result) \<noteq> []"
    | (none) "strip (stderr result) = []" "strip (stdout result) = []"
    by blast
  then show ?thesis
  proof cases
    case both
    then have "?msg = ?h @ strip (stderr result) @ ?m @ strip (stdout result) @ []"
      by (simp add: conversion_error_message_def)
    then show ?thesis by blast
  next
    case err
    then have "?msg = ?h @ strip (stderr result) @ (?m @ ''No Stdout'') @ strip (stdout result) @ []"
      by (simp add: conversion_error_message_def)
    then show ?thesis by blast
  next
    case out
    then have "?msg = [] @ strip (stderr result) @ (?h @ ''No Stderr'' @ ?m) @ strip (stdout result) @ []"
      by (simp add: conversion_error_message_def)
    then show ?thesis by blast
  next
    case none
    then have "?msg = ?msg @ strip (stderr result) @ [] @ strip (stdout result) @ []"
      by simp
    then show ?thesis by blast
  qed
qed

text \<open>
  Claim C6. When the conversion tool exits with a non-zero status, the invoker raises an
  error whose message holds the stripped standard error and the stripped standard output
  of the child, in this order. The sync catches the error for that item, reports it and
  does not count it, and goes on: the next item of the same batch, whose conversion
  succeeds, is converted and counted.
\<close>

theorem failed_conversion_reported_batch_continues:
  assumes "tool_available w ''sav-to-srm.py'' (sd_only_target bad)"
    and "run w (conversion_command w ''sav-to-srm.py'' (path bad) (sd_only_target bad))
           (scripts_dir w) = Inr result"
    and "returncode result \<noteq> 0"
    and "tool_available w ''sav-to-srm.py'' (sd_only_target good)"
    and "run w (conversion_command w ''sav-to-srm.py'' (path good) (sd_only_target good))
           (scripts_dir w) = Inr result'"
    and "returncode result' = 0"
  shows "run_conversion_script w ''sav-to-srm.py'' (path bad) (sd_only_target bad) =
           ([Executing (conversion_command w ''sav-to-srm.py'' (path bad) (sd_only_target bad))],
            Inl (IOError (''Failed to run conversion command: '' @
              conversion_error_message ''sav-to-srm.py'' (path bad) (sd_only_target bad) result))) \<and>
         (\<exists>pre mid post.
            conversion_error_message ''sav-to-srm.py'' (path bad) (sd_only_target bad) result =
              pre @ strip (stderr result) @ mid @ strip (stdout result) @ post) \<and>
         sync_sd_to_local w A B \<lparr>sd_only = [bad, good], local_only = lo, conflicts = []\<rparr> =
           (1, [Initiating_sync,
                Executing (conversion_command w ''sav-to-srm.py'' (path bad) (sd_only_target bad)),
                Error_copying (path_basename (path bad))
                  (IOError (''Failed to run conversion command: '' @
                     conversion_error_message ''sav-to-srm.py'' (path bad) (sd_only_target bad) result)),
                Executing (conversion_command w ''sav-to-srm.py'' (path good) (sd_only_target good)),
                Copied (path_basename (path good)) (path_basename (sd_only_target good)),
                Sync_complete 1])"
proof -
  have rb: "run_conversion_script w ''sav-to-srm.py'' (path bad) (sd_only_target bad) =
           ([Executing (conversion_command w ''sav-to-srm.py'' (path bad) (sd_only_target bad))],
            Inl (IOError (''Failed to run conversion command: '' @
              conversion_error_message ''sav-to-srm.py'' (path bad) (sd_only_target bad) result)))"
    using run_conversion_script_exit [OF assms(1) assms(2)] assms(3) by simp
  have rg: "run_conversion_script w ''sav-to-srm.py'' (path good) (sd_only_target good) =
           ([Executing (conversion_command w ''sav-to-srm.py'' (path good) (sd_only_target good))],
            Inr (sd_only_target good))"
    using run_conversion_script_exit [OF assms(4) assms(5)] assms(6) by simp
  have sb: "sd_to_local_copy w st bad =
      (fst st, snd st @
        [Executing (conversion_command w ''sav-to-srm.py'' (path bad) (sd_only_target bad)),
         Error_copying (path_basename (path bad))
           (IOError (''Failed to run conversion command: '' @
              conversion_error_message ''sav-to-srm.py'' (path bad) (sd_only_target bad) result))])"
    for st
    using rb by (simp add: sd_to_local_copy_def sd_only_target_def Let_def)
  have sg: "sd_to_local_copy w st good =
      (fst st + 1, snd st @
        [Executing (conversion_command w ''sav-to-srm.py'' (path good) (sd_only_target good)),
         Copied (path_basename (path good)) (path_basename (sd_only_target good))])"
    for st
    using rg by (simp add: sd_to_local_copy_def sd_only_target_def Let_def)
  have batch: "sync_sd_to_local w A B \<lparr>sd_only = [bad, good], local_only = lo, conflicts = []\<rparr> =
           (1, [Initiating_sync,
                Executing (conversion_command w ''sav-to-srm.py'' (path bad) (sd_only_target bad)),
                Error_copying (path_basename (path bad))
                  (IOError (''Failed to run conversion command: '' @
                     conversion_error_message ''sav-to-srm.py'' (path bad) (sd_only_target bad) result)),
                Executing (conversion_command w ''sav-to-srm.py'' (path good) (sd_only_target good)),
                Copied (path_basename (path good)) (path_basename (sd_only_target good)),
                Sync_complete 1])"
    by (simp add: sync_sd_to_local_def sb sg)
  from rb error_message_carries_streams batch show ?thesis
    by blast
qed

lemma sum_list_filter_zero:
  fixes f :: "'a \<Rightarrow> nat"
  assumes "\<And>x. \<not> P x \<Longrightarrow> f x = 0"
  shows "sum_list (map f (filter P xs)) = sum_list (map f xs)"
  using assms by (induction xs) simp_all

lemma invocations_append [simp]: "invocations (xs @ ys) = invocations xs @ invocations ys"
  by (simp add: invocations_def)

lemma invocations_simps [simp]:
  "invocations [] = []"
  "invocations (Executing command # evs) = command # invocations evs"
  "invocations (Initiating_sync # evs) = invocations evs"
  "invocations (Skipping_similar k # evs) = invocations evs"
  "invocations (Skipping_newer k # evs) = invocations evs"
  "invocations (Sync_complete n # evs) = invocations evs"
  by (simp_all add: invocations_def)

lemma invocations_filter_silent:
  assumes "\<And>x. \<not> P x \<Longrightarrow> invocations (g x) = []"
  shows "invocations (concat (map g (filter P xs))) = invocations (concat (map g xs))"
  using assms by (induction xs) simp_all

text \<open>
  Claim C3 says that a conflict whose modification times differ by at most one second,
  with \<^verbatim>\<open>.sav\<close> on the SD card and \<^verbatim>\<open>.srm\<close> in the local folder, is skipped by the sync
  from SD to local. With the SD record newer by half a second, the sync converts it.
\<close>

theorem within_tolerance_newer_sd_is_converted_counterexample:
  "sync_sd_to_local example_world
     [(''mario'', \<lparr>path = ''/sd/mario.gba.sav'', mtime = 100.5, ext = ''.sav''\<rparr>)]
     [(''mario'', \<lparr>path = ''/local/mario.srm'', mtime = 100, ext = ''.srm''\<rparr>)]
     (compare_folders
        [(''mario'', \<lparr>path = ''/sd/mario.gba.sav'', mtime = 100.5, ext = ''.sav''\<rparr>)]
        [(''mario'', \<lparr>path = ''/local/mario.srm'', mtime = 100, ext = ''.srm''\<rparr>)]) =
   (1, [Initiating_sync,
        Executing [''/usr/bin/python3'', ''/home/deck/gba-rom-save-tool/srm-to-sav/sav-to-srm.py'',
                   ''-i'', ''/sd/mario.gba.sav'', ''-o'',
                   ''/home/deck/Documents/emulation/Emulation/saves/retroarch/saves/mario.srm''],
        Resolved_conflict ''mario'' ''mario.gba.sav'',
        Sync_complete 1])"
  by code_simp

text \<open>
  Claim C3, amended. In either direction X to Y, a conflict starts a conversion of X's
  file exactly when X's modification time is strictly greater than Y's, by any amount:
  no tolerance is applied to this test. Every conflict where X is not newer is skipped,
  with one of the two skip messages, counts for nothing and starts no conversion; in
  particular the conflicts with \<^verbatim>\<open>.sav\<close> on the SD card, \<^verbatim>\<open>.srm\<close> in the local folder and
  modification times at most one second apart where X is not newer. For the whole batch:
  removing the conflicts where X is not newer changes neither the processed count nor the
  list of commands run.
\<close>

theorem conflict_converted_iff_strictly_newer:
  "(mtime (sd c) > mtime (local c) \<longrightarrow>
      sd_to_local_conflict w (n, out) c =
        (case snd (run_conversion_script w ''sav-to-srm.py'' (path (sd c)) (local_target c)) of
           Inr _ \<Rightarrow> (n + 1, out @
               fst (run_conversion_script w ''sav-to-srm.py'' (path (sd c)) (local_target c)) @
               [Resolved_conflict (basename c) (path_basename (path (sd c)))])
         | Inl e \<Rightarrow> (n, out @
               fst (run_conversion_script w ''sav-to-srm.py'' (path (sd c)) (local_target c)) @
               [Error_resolving (basename c) e]))) \<and>
   (\<not> mtime (sd c) > mtime (local c) \<longrightarrow>
      sd_to_local_conflict w (n, out) c =
        (n, out @ [if ext (sd c) = ''.sav'' \<and> ext (local c) = ''.srm'' \<and>
                      \<bar>mtime (sd c) - mtime (local c)\<bar> \<le> 1
                   then Skipping_similar (basename c) else Skipping_newer (basename c)])) \<and>
   (mtime (local c) > mtime (sd c) \<longrightarrow>
      local_to_sd_conflict w (n, out) c =
        (case snd (run_conversion_script w ''srm-to-sav.py'' (path (local c)) (sd_target c)) of
           Inr _ \<Rightarrow> (n + 1, out @
               fst (run_conversion_script w ''srm-to-sav.py'' (path (local c)) (sd_target c)) @
               [Resolved_conflict (basename c) (path_basename (path (local c)))])
         | Inl e \<Rightarrow> (n, out @
               fst (run_conversion_script w ''srm-to-sav.py'' (path (local c)) (sd_target c)) @
               [Error_resolving (basename c) e]))) \<and>
   (\<not> mtime (local c) > mtime (sd c) \<longrightarrow>
      local_to_sd_conflict w (n, out) c =
        (n, out @ [if ext (sd c) = ''.sav'' \<and> ext (local c) = ''.srm'' \<and>
                      \<bar>mtime (sd c) - mtime (local c)\<bar> \<le> 1
                   then Skipping_similar (basename c) else Skipping_newer (basename c)])) \<and>
   fst (sync_sd_to_local w A B d) =
     fst (sync_sd_to_local w A B
            (d\<lparr>conflicts := filter (\<lambda>c. mtime (sd c) > mtime (local c)) (conflicts d)\<rparr>)) \<and>
   invocations (snd (sync_sd_to_local w A B d)) =
     invocations (snd (sync_sd_to_local w A B
            (d\<lparr>conflicts := filter (\<lambda>c. mtime (sd c) > mtime (local c)) (conflicts d)\<rparr>))) \<and>
   fst (sync_local_to_sd w A B d) =
     fst (sync_local_to_sd w A B
            (d\<lparr>conflicts := filter (\<lambda>c. mtime (local c) > mtime (sd c)) (conflicts d)\<rparr>)) \<and>
   invocations (snd (sync_local_to_sd w A B d)) =
     invocations (snd (sync_local_to_sd w A B
            (d\<lparr>conflicts := filter (\<lambda>c. mtime (local c) > mtime (sd c)) (conflicts d)\<rparr>)))"
proof -
  have s0: "fst (sd_to_local_conflict w (0, []) x) = 0"
      "invocations (snd (sd_to_local_conflict w (0, []) x)) = []"
    if "\<not> mtime (sd x) > mtime (local x)" for x
    using that by (simp_all add: sd_to_local_conflict_not_newer)
  have l0: "fst (local_to_sd_conflict w (0, []) x) = 0"
      "invocations (snd (local_to_sd_conflict w (0, []) x)) = []"
    if "\<not> mtime (local x) > mtime (sd x)" for x
    using that by (simp_all add: local_to_sd_conflict_not_newer)
  have 5: "fst (sync_sd_to_local w A B d) =
     fst (sync_sd_to_local w A B
            (d\<lparr>conflicts := filter (\<lambda>c. mtime (sd c) > mtime (local c)) (conflicts d)\<rparr>))"
    by (simp add: sync_sd_to_local_sum(1)
        sum_list_filter_zero [of "\<lambda>c. mtime (sd c) > mtime (local c)", OF s0(1)])
  have 6: "invocations (snd (sync_sd_to_local w A B d)) =
     invocations (snd (sync_sd_to_local w A B
            (d\<lparr>conflicts := filter (\<lambda>c. mtime (sd c) > mtime (local c)) (conflicts d)\<rparr>)))"
    by (simp add: sync_sd_to_local_sum(2)
        invocations_filter_silent [of "\<lambda>c. mtime (sd c) > mtime (local c)", OF s0(2)])
  have 7: "fst (sync_local_to_sd w A B d) =
     fst (sync_local_to_sd w A B
            (d\<lparr>conflicts := filter (\<lambda>c. mtime (local c) > mtime (sd c)) (conflicts d)\<rparr>))"
    by (simp add: sync_local_to_sd_sum(1)
        sum_list_filter_zero [of "\<lambda>c. mtime (local c) > mtime (sd c)", OF l0(1)])
  have 8: "invocations (snd (sync_local_to_sd w A B d)) =
     invocations (snd (sync_local_to_sd w A B
            (d\<lparr>conflicts := filter (\<lambda>c. mtime (local c) > mtime (sd c)) (conflicts d)\<rparr>)))"
    by (simp add: sync_local_to_sd_sum(2)
        invocations_filter_silent [of "\<lambda>c. mtime (local c) > mtime (sd c)", OF l0(2)])
  show ?thesis
    using sd_to_local_conflict_newer [of c w n out] sd_to_local_conflict_not_newer [of c w n out]
      local_to_sd_conflict_newer [of c w n out] local_to_sd_conflict_not_newer [of c w n out]
      5 6 7 8
    by blast
qed

theorem conflict_converted_iff_strictly_newer_witness:
  "\<not> mtime (sd example_older_sd) > mtime (local example_older_sd) \<and>
   mtime (local example_older_sd) > mtime (sd example_older_sd) \<and>
   sd_to_local_conflict example_world (0, []) example_older_sd =
     (0, [Skipping_similar ''mario'']) \<and>
   fst (local_to_sd_conflict example_world (0, []) example_older_sd) = 1"
proof -
  have h1: "\<not> mtime (sd example_older_sd) > mtime (local example_older_sd)"
    by (simp add: example_older_sd_def)
  have h2: "mtime (local example_older_sd) > mtime (sd example_older_sd)"
    by (simp add: example_older_sd_def)
  have e: "run_conversion_script example_world ''srm-to-sav.py''
             (path (local example_older_sd)) (sd_target example_older_sd) =
           ([Executing [''/usr/bin/python3'',
                        ''/home/deck/gba-rom-save-tool/srm-to-sav/srm-to-sav.py'',
                        ''-i'', ''/local/mario.srm'', ''-o'',
                        ''/run/media/deck/MINUI/Saves/GBA/mario.gba.sav'']],
            Inr ''/run/media/deck/MINUI/Saves/GBA/mario.gba.sav'')"
    by code_simp
  note t = conflict_converted_iff_strictly_newer [of example_older_sd example_world 0 "[]"]
  from t h1 have s: "sd_to_local_conflict example_world (0, []) example_older_sd =
      (0, [Skipping_similar ''mario''])"
    by (simp add: example_older_sd_def)
  from t h2 have l: "fst (local_to_sd_conflict example_world (0, []) example_older_sd) = 1"
    by (simp add: e)
  from h1 h2 s l show ?thesis
    by simp
qed

theorem newer_sd_conflict_processed_once_witness:
  "mtime (sd example_newer_sd) = 200 \<and> mtime (local example_newer_sd) = 100 \<and>
   tool_available example_world ''sav-to-srm.py'' (local_target example_newer_sd) \<and>
   run example_world
     (conversion_command example_world ''sav-to-srm.py'' (path (sd example_newer_sd))
        (local_target example_newer_sd))
     (scripts_dir example_world) = Inr \<lparr>returncode = 0, stdout = ''done'', stderr = []\<rparr> \<and>
   fst (sync_sd_to_local example_world [] []
          \<lparr>sd_only = [], local_only = [], conflicts = [example_newer_sd]\<rparr>) = 1 \<and>
   fst (sync_local_to_sd example_world [] []
          \<lparr>sd_only = [], local_only = [], conflicts = [example_newer_sd]\<rparr>) = 0"
proof -
  have h1: "mtime (sd example_newer_sd) = 200" and h2: "mtime (local example_newer_sd) = 100"
    by (simp_all add: example_newer_sd_def)
  have h3: "tool_available example_world ''sav-to-srm.py'' (local_target example_newer_sd)"
    by (simp add: tool_available_def example_world_def)
  have h4: "run example_world
     (conversion_command example_world ''sav-to-srm.py'' (path (sd example_newer_sd))
        (local_target example_newer_sd))
     (scripts_dir example_world) = Inr \<lparr>returncode = 0, stdout = ''done'', stderr = []\<rparr>"
    by code_simp
  have h5: "returncode \<lparr>returncode = 0, stdout = ''done'', stderr = []\<rparr> = 0"
    by simp
  from newer_sd_conflict_processed_once [OF h1 h2 h3 h4 h5,
      where A = "[]" and B = "[]" and lo = "[]" and so = "[]"] h1 h2 h3 h4
  show ?thesis
    by simp
qed

theorem failed_conversion_reported_batch_continues_witness:
  "tool_available example_world ''sav-to-srm.py'' (sd_only_target example_bad) \<and>
   run example_world
     (conversion_command example_world ''sav-to-srm.py'' (path example_bad)
        (sd_only_target example_bad))
     (scripts_dir example_world) =
       Inr \<lparr>returncode = 1, stdout = '' reading '', stderr = '' bad header ''\<rparr> \<and>
   tool_available example_world ''sav-to-srm.py'' (sd_only_target example_good) \<and>
   run example_world
     (conversion_command example_world ''sav-to-srm.py'' (path example_good)
        (sd_only_target example_good))
     (scripts_dir example_world) = Inr \<lparr>returncode = 0, stdout = ''done'', stderr = []\<rparr> \<and>
   fst (sync_sd_to_local example_world [] []
          \<lparr>sd_only = [example_bad, example_good], local_only = [], conflicts = []\<rparr>) = 1"
proof -
  have h1: "tool_available example_world ''sav-to-srm.py'' (sd_only_target example_bad)"
    by (simp add: tool_available_def example_world_def)
  have h2: "run example_world
     (conversion_command example_world ''sav-to-srm.py'' (path example_bad)
        (sd_only_target example_bad))
     (scripts_dir example_world) =
       Inr \<lparr>returncode = 1, stdout = '' reading '', stderr = '' bad header ''\<rparr>"
    by code_simp
  have h3: "returncode \<lparr>returncode = 1, stdout = '' reading '', stderr = '' bad header ''\<rparr> \<noteq> 0"
    by simp
  have h4: "tool_available example_world ''sav-to-srm.py'' (sd_only_target example_good)"
    by (simp add: tool_available_def example_world_def)
  have h5: "run example_world
     (conversion_command example_world ''sav-to-srm.py'' (path example_good)
        (sd_only_target example_good))
     (scripts_dir example_world) = Inr \<lparr>returncode = 0, stdout = ''done'', stderr = []\<rparr>"
    by code_simp
  have h6: "returncode \<lparr>returncode = 0, stdout = ''done'', stderr = []\<rparr> = 0"
    by simp
  from failed_conversion_reported_batch_continues [OF h1 h2 h3 h4 h5 h6,
      where A = "[]" and B = "[]" and lo = "[]"] h1 h2 h4 h5
  show ?thesis
    by simp
qed

end
